theory Spec2Isabelle
  imports Complex_Main
begin

section \<open>NexGen Intelligence: the derivation pipeline of \<open>app.py\<close>\<close>

text \<open>
  The script \<open>app.py\<close> loads five tables, left-joins them on \<open>order_id\<close>, fills the
  missing cells with 0 and derives the deviation flags, the value leakage, the root cause
  and the risk score of every row; the simulator page turns the total leakage and three
  slider values into a projected saving, a new baseline and an ROI horizon.

  The embedding follows the script statement by statement. A data frame is the list of its
  rows, in row order. Numbers are exact: a numeric cell of a loaded table is a real number
  or missing, and the rounding of 64-bit floating point is not part of the model. What is
  part of it is the one place where floating point is not a field: a result that is an
  infinity or a nan.
\<close>

subsection \<open>Numbers that need not be finite\<close>

text \<open>
  \<open>NonFinite\<close> stands for any of \<open>inf\<close>, \<open>-inf\<close> and \<open>nan\<close>; the model does not
  track which. The loaded cells are finite, so in this program a non-finite operand is either
  the nan statistic of an empty column or the result of a division by zero. Arithmetic with a
  non-finite operand on either side is non-finite again. A comparison or a quotient with a
  non-finite right-hand side only ever meets the nan of an empty column: the comparison is
  False and the quotient is nan.
\<close>

datatype np_float = Finite real | NonFinite

fun np_add :: "np_float \<Rightarrow> np_float \<Rightarrow> np_float" where
  "np_add (Finite a) (Finite b) = Finite (a + b)"
| "np_add _ _ = NonFinite"

fun np_sub :: "np_float \<Rightarrow> np_float \<Rightarrow> np_float" where
  "np_sub (Finite a) (Finite b) = Finite (a - b)"
| "np_sub _ _ = NonFinite"

fun np_mul :: "np_float \<Rightarrow> np_float \<Rightarrow> np_float" where
  "np_mul (Finite a) (Finite b) = Finite (a * b)"
| "np_mul _ _ = NonFinite"

text \<open>True division of floats: a zero divisor gives an infinity or a nan, never an exception.\<close>

fun np_truediv :: "np_float \<Rightarrow> np_float \<Rightarrow> np_float" where
  "np_truediv (Finite a) (Finite b) = (if b = 0 then NonFinite else Finite (a / b))"
| "np_truediv _ _ = NonFinite"

fun np_gt :: "np_float \<Rightarrow> np_float \<Rightarrow> bool" where
  "np_gt (Finite a) (Finite b) = (b < a)"
| "np_gt _ _ = False"

text \<open>
  Arithmetic on two columns or on a column and a scalar runs inside pandas, which silences
  numpy's floating-point error reports. A division of two numpy scalars outside a column
  does report: numpy's default error state is \<open>warn\<close>, so a zero divisor makes it issue a
  \<open>RuntimeWarning\<close> and return the infinity or nan. The warning is an effect of the
  division; the model returns it next to the value.
\<close>

datatype np_warning = DivideByZero | InvalidValue

fun scalar_truediv :: "np_float \<Rightarrow> np_float \<Rightarrow> np_float \<times> np_warning list" where
  "scalar_truediv (Finite a) (Finite b) =
     (if b \<noteq> 0 then (Finite (a / b), [])
      else if a = 0 then (NonFinite, [InvalidValue])
      else (NonFinite, [DivideByZero]))"
| "scalar_truediv _ _ = (NonFinite, [])"

subsection \<open>Column statistics\<close>

text \<open>
  \<open>Series.median()\<close>, \<open>Series.mean()\<close> and \<open>Series.max()\<close> of a numeric column. On an
  empty column each returns nan and raises nothing. The median of an even number of values is
  the mean of the two middle ones; \<open>Series.sum()\<close> of an empty column is 0.
\<close>

definition median_series :: "real list \<Rightarrow> np_float" where
  "median_series xs =
     (if xs = [] then NonFinite
      else let s = sort xs; n = length xs in
        if odd n then Finite (s ! (n div 2))
        else Finite ((s ! (n div 2 - 1) + s ! (n div 2)) / 2))"

definition mean_series :: "real list \<Rightarrow> np_float" where
  "mean_series xs = (if xs = [] then NonFinite else Finite (sum_list xs / real (length xs)))"

definition max_series :: "real list \<Rightarrow> np_float" where
  "max_series xs = (case xs of [] \<Rightarrow> NonFinite | x # ys \<Rightarrow> Finite (fold max ys x))"

definition sum_series :: "np_float list \<Rightarrow> np_float" where
  "sum_series xs = fold (\<lambda>x acc. np_add acc x) xs (Finite 0)"

subsection \<open>The five loaded tables\<close>

text \<open>
  Modelled from the spec: the columns of the five CSV files, which are not in the
  repository. \<open>load_data\<close> (lines 21 to 57) returns the five tables with their columns
  renamed; which table brings which column, and whether a column holds numbers or strings,
  is the data model of the specification. A cell that the file leaves empty is missing
  (\<open>None\<close> here, nan in pandas). The key \<open>order_id\<close> is present in every row. Columns that
  the script never reads are left out; the join and the fill treat them like the ones kept.
\<close>

type_synonym order_id = string

record orders_row =
  orders_order_id :: order_id
  orders_order_value :: "real option"
  orders_priority :: "string option"

record delivery_row =
  delivery_order_id :: order_id
  delivery_promised_delivery_days :: "real option"
  delivery_actual_delivery_days :: "real option"
  delivery_status :: "string option"
  delivery_delivery_cost :: "real option"
  delivery_rating :: "real option"

record routes_row =
  routes_order_id :: order_id
  routes_carrier :: "string option"
  routes_traffic_delay :: "real option"

record cost_row =
  cost_order_id :: order_id
  cost_special_handling :: "string option"

record feedback_row =
  feedback_order_id :: order_id
  feedback_feedback_rating :: "real option"

subsection \<open>Process table: the merge chain and \<open>fillna(0)\<close>\<close>

text \<open>
  Lines 62 to 67. \<open>left.merge(right, on="order_id", how="left")\<close>: every left row, in the order of the
  left table, once for each right row with the same key (in the order of the right table),
  or once with the right-hand cells missing when no right row has that key.
\<close>

definition merge_left ::
  "('a \<Rightarrow> order_id) \<Rightarrow> ('b \<Rightarrow> order_id) \<Rightarrow> 'a list \<Rightarrow> 'b list \<Rightarrow> ('a \<times> 'b option) list" where
  "merge_left kl kr left right =
     concat (map (\<lambda>l. case filter (\<lambda>r. kr r = kl l) right of
                         [] \<Rightarrow> [(l, None)]
                       | ms \<Rightarrow> map (\<lambda>r. (l, Some r)) ms) left)"

text \<open>
  An object column (strings) that \<open>fillna(0)\<close> has gone over holds strings and the
  integer 0.
\<close>

datatype pyobj = PyStr string | PyInt int

definition fillna_num :: "real option \<Rightarrow> real" where
  "fillna_num c = (case c of None \<Rightarrow> 0 | Some v \<Rightarrow> v)"

definition fillna_obj :: "string option \<Rightarrow> pyobj" where
  "fillna_obj c = (case c of None \<Rightarrow> PyInt 0 | Some s \<Rightarrow> PyStr s)"

record unified_row =
  order_id :: order_id
  order_value :: real
  priority :: pyobj
  promised_delivery_days :: real
  actual_delivery_days :: real
  status :: pyobj
  delivery_cost :: real
  rating :: real
  carrier :: pyobj
  traffic_delay :: real
  special_handling :: pyobj
  feedback_rating :: real

type_synonym merged_row =
  "(((orders_row \<times> delivery_row option) \<times> routes_row option) \<times> cost_row option)
     \<times> feedback_row option"

text \<open>
  The cells of one merged row after \<open>df.fillna(0, inplace=True)\<close>. A cell is missing when
  the right-hand row is (no match) or when the matching row leaves it empty.
\<close>

definition fillna :: "merged_row \<Rightarrow> unified_row" where
  "fillna m =
     (case m of ((((ord, dlv), rte), cst), fbk) \<Rightarrow>
        \<lparr> order_id = orders_order_id ord,
          order_value = fillna_num (orders_order_value ord),
          priority = fillna_obj (orders_priority ord),
          promised_delivery_days = fillna_num (Option.bind dlv delivery_promised_delivery_days),
          actual_delivery_days = fillna_num (Option.bind dlv delivery_actual_delivery_days),
          status = fillna_obj (Option.bind dlv delivery_status),
          delivery_cost = fillna_num (Option.bind dlv delivery_delivery_cost),
          rating = fillna_num (Option.bind dlv delivery_rating),
          carrier = fillna_obj (Option.bind rte routes_carrier),
          traffic_delay = fillna_num (Option.bind rte routes_traffic_delay),
          special_handling = fillna_obj (Option.bind cst cost_special_handling),
          feedback_rating = fillna_num (Option.bind fbk feedback_feedback_rating) \<rparr>)"

definition merge_chain ::
  "orders_row list \<Rightarrow> delivery_row list \<Rightarrow> routes_row list \<Rightarrow> cost_row list
     \<Rightarrow> feedback_row list \<Rightarrow> merged_row list" where
  "merge_chain orders delivery routes cost feedback =
     (let df = merge_left orders_order_id delivery_order_id orders delivery;
          df = merge_left (orders_order_id \<circ> fst) routes_order_id df routes;
          df = merge_left (orders_order_id \<circ> fst \<circ> fst) cost_order_id df cost;
          df = merge_left (orders_order_id \<circ> fst \<circ> fst \<circ> fst) feedback_order_id df feedback
      in df)"

definition process_table ::
  "orders_row list \<Rightarrow> delivery_row list \<Rightarrow> routes_row list \<Rightarrow> cost_row list
     \<Rightarrow> feedback_row list \<Rightarrow> unified_row list" where
  "process_table orders delivery routes cost feedback =
     map fillna (merge_chain orders delivery routes cost feedback)"

subsection \<open>Deviation logic\<close>

text \<open>
  Lines 72 to 76: the three flag columns and their disjunction. The median is taken once,
  over the whole \<open>delivery_cost\<close> column; \<open>isin\<close> is \<open>Series.isin(values)\<close>, cell by cell.
\<close>

definition isin :: "pyobj \<Rightarrow> string list \<Rightarrow> bool" where
  "isin c values = (c \<in> set (map PyStr values))"

record deviation_row = unified_row +
  delay :: bool
  damage :: bool
  cost_overrun :: bool
  deviation :: bool

definition deviation_logic :: "unified_row list \<Rightarrow> deviation_row list" where
  "deviation_logic df =
     (let median = median_series (map delivery_cost df) in
      map (\<lambda>r.
        let delay = promised_delivery_days r < actual_delivery_days r;
            damage = isin (status r) [''Damaged'', ''Wrong Item''];
            cost_overrun = np_gt (Finite (delivery_cost r)) median
        in unified_row.extend r
             (deviation_row.fields delay damage cost_overrun (delay \<or> damage \<or> cost_overrun)))
        df)"

subsection \<open>Value leakage\<close>

text \<open>
  Lines 81 to 86. \<open>df["value_leakage"] = 0\<close>, then three times \<open>df.loc[mask, "value_leakage"] += rhs\<close>:
  the rows where the mask column is True get the row's cell of \<open>rhs\<close> added, the others keep
  their value. The third right-hand side computes the median of \<open>delivery_cost\<close> anew.
\<close>

record leakage_row = deviation_row +
  value_leakage :: np_float

definition loc_add ::
  "(leakage_row \<Rightarrow> bool) \<Rightarrow> (leakage_row \<Rightarrow> np_float) \<Rightarrow> leakage_row list \<Rightarrow> leakage_row list" where
  "loc_add sel rhs df =
     map (\<lambda>r. if sel r then r\<lparr>value_leakage := np_add (value_leakage r) (rhs r)\<rparr> else r) df"

definition value_leakage_step :: "deviation_row list \<Rightarrow> leakage_row list" where
  "value_leakage_step df0 =
     (let df = map (\<lambda>r. deviation_row.extend r (leakage_row.fields (Finite 0))) df0;
          df = loc_add delay (\<lambda>r. np_mul (Finite 0.1) (Finite (order_value r))) df;
          df = loc_add damage (\<lambda>r. np_mul (Finite 0.2) (Finite (order_value r))) df;
          median = median_series (map delivery_cost df);
          df = loc_add cost_overrun (\<lambda>r. np_sub (Finite (delivery_cost r)) median) df
      in df)"

subsection \<open>Root cause tagging\<close>

text \<open>
  Lines 91 to 94. \<open>df["root_cause"] = "Normal"\<close>, then three times
  \<open>df.loc[mask, "root_cause"] = label\<close>, each over the whole table and in this order.
\<close>

record tagged_row = leakage_row +
  root_cause :: string

definition loc_set ::
  "(tagged_row \<Rightarrow> bool) \<Rightarrow> string \<Rightarrow> tagged_row list \<Rightarrow> tagged_row list" where
  "loc_set sel v df = map (\<lambda>r. if sel r then r\<lparr>root_cause := v\<rparr> else r) df"

definition root_cause_tagging :: "leakage_row list \<Rightarrow> tagged_row list" where
  "root_cause_tagging df0 =
     (let df = map (\<lambda>r. leakage_row.extend r (tagged_row.fields ''Normal'')) df0;
          df = loc_set (\<lambda>r. 2 < traffic_delay r) ''Traffic'' df;
          df = loc_set (\<lambda>r. isin (carrier r) [''GlobalTransit'']) ''Carrier Reliability'' df;
          df = loc_set (\<lambda>r. special_handling r \<noteq> PyStr ''None'') ''Handling Complexity'' df
      in df)"

subsection \<open>Risk scoring\<close>

text \<open>
  Lines 99 to 103. The mean of \<open>delivery_cost\<close> and the maximum of \<open>traffic_delay\<close> are
  taken once, over the whole column; the three quotients are column arithmetic.
\<close>

record order_record = tagged_row +
  risk_score :: np_float

definition risk_scoring :: "tagged_row list \<Rightarrow> order_record list" where
  "risk_scoring df =
     (let mean = mean_series (map delivery_cost df);
          mx = max_series (map traffic_delay df) in
      map (\<lambda>r. tagged_row.extend r (order_record.fields
        (np_add
          (np_add
            (np_mul (Finite 0.4)
               (np_truediv (Finite (actual_delivery_days r))
                  (np_add (Finite (promised_delivery_days r)) (Finite 1))))
            (np_mul (Finite 0.3)
               (np_truediv (Finite (delivery_cost r)) (np_add mean (Finite 1)))))
          (np_mul (Finite 0.3)
             (np_truediv (Finite (traffic_delay r)) (np_add mx (Finite 1))))))) df)"

subsection \<open>The enriched table\<close>

definition derive :: "unified_row list \<Rightarrow> order_record list" where
  "derive df = risk_scoring (root_cause_tagging (value_leakage_step (deviation_logic df)))"

definition pipeline ::
  "orders_row list \<Rightarrow> delivery_row list \<Rightarrow> routes_row list \<Rightarrow> cost_row list
     \<Rightarrow> feedback_row list \<Rightarrow> order_record list" where
  "pipeline orders delivery routes cost feedback =
     derive (process_table orders delivery routes cost feedback)"

subsection \<open>Value leakage simulator\<close>

text \<open>
  Lines 176 to 191. The three sliders return integers. \<open>base_leakage\<close> is the
  \<open>Series.sum()\<close> of a column, a numpy scalar, and so are the saving and the baseline
  computed from it; the division of line 191 is a division by a numpy scalar. The metric
  labels format the three numbers
  (\<open>int(...)\<close>, \<open>round(..., 1)\<close>); the model stops at the numbers that are formatted.
\<close>

definition base_leakage :: "order_record list \<Rightarrow> np_float" where
  "base_leakage df = sum_series (map value_leakage df)"

definition simulated_saving :: "np_float \<Rightarrow> int \<Rightarrow> int \<Rightarrow> int \<Rightarrow> np_float" where
  "simulated_saving base delay_reduction damage_reduction route_saving =
     np_mul base (Finite (real_of_int delay_reduction / 100 * 0.4 +
                          real_of_int damage_reduction / 100 * 0.4 +
                          real_of_int route_saving / 100 * 0.2))"

definition new_baseline :: "np_float \<Rightarrow> int \<Rightarrow> int \<Rightarrow> int \<Rightarrow> np_float" where
  "new_baseline base delay_reduction damage_reduction route_saving =
     np_sub base (simulated_saving base delay_reduction damage_reduction route_saving)"

definition roi_horizon :: "np_float \<Rightarrow> np_float \<times> np_warning list" where
  "roi_horizon saving = scalar_truediv (Finite 100000) saving"

subsection \<open>Executive dashboard\<close>

text \<open>
  Lines 123 and 124. Two of the four metrics of the dashboard page are means over the
  enriched table:
  \<open>(~df['deviation']).mean()*100\<close> and \<open>df["rating"].mean()\<close>. The labels round
  them; the model stops at the numbers that are rounded.
\<close>

definition perfect_order_rate :: "order_record list \<Rightarrow> np_float" where
  "perfect_order_rate df =
     np_mul (mean_series (map (\<lambda>r. if deviation r then 0 else 1) df)) (Finite 100)"

definition avg_customer_rating :: "order_record list \<Rightarrow> np_float" where
  "avg_customer_rating df = mean_series (map rating df)"

subsection \<open>Example tables\<close>

text \<open>
  Three orders. The first has a row in every table, the second has none in the feedback
  table and an empty rating, the third has a row in no other table. \<open>ex_unified\<close> is the
  process table they give.
\<close>

definition ex_orders :: "orders_row list" where
  "ex_orders =
     [\<lparr>orders_order_id = ''1'', orders_order_value = Some 1000, orders_priority = Some ''High''\<rparr>,
      \<lparr>orders_order_id = ''2'', orders_order_value = Some 500, orders_priority = Some ''Low''\<rparr>,
      \<lparr>orders_order_id = ''3'', orders_order_value = Some 200, orders_priority = None\<rparr>]"

definition ex_delivery :: "delivery_row list" where
  "ex_delivery =
     [\<lparr>delivery_order_id = ''1'', delivery_promised_delivery_days = Some 2,
       delivery_actual_delivery_days = Some 5, delivery_status = Some ''Delivered'',
       delivery_delivery_cost = Some 100, delivery_rating = Some 4\<rparr>,
      \<lparr>delivery_order_id = ''2'', delivery_promised_delivery_days = Some 3,
       delivery_actual_delivery_days = Some 3, delivery_status = Some ''Damaged'',
       delivery_delivery_cost = Some 150, delivery_rating = None\<rparr>]"

definition ex_routes :: "routes_row list" where
  "ex_routes =
     [\<lparr>routes_order_id = ''1'', routes_carrier = Some ''FastShip'', routes_traffic_delay = Some 1\<rparr>,
      \<lparr>routes_order_id = ''2'', routes_carrier = Some ''GlobalTransit'', routes_traffic_delay = Some 5\<rparr>]"

definition ex_cost :: "cost_row list" where
  "ex_cost =
     [\<lparr>cost_order_id = ''1'', cost_special_handling = Some ''None''\<rparr>,
      \<lparr>cost_order_id = ''2'', cost_special_handling = Some ''Fragile''\<rparr>]"

definition ex_feedback :: "feedback_row list" where
  "ex_feedback = [\<lparr>feedback_order_id = ''1'', feedback_feedback_rating = Some 4\<rparr>]"

definition ex_unified :: "unified_row list" where
  "ex_unified =
     [\<lparr>order_id = ''1'', order_value = 1000, priority = PyStr ''High'',
       promised_delivery_days = 2, actual_delivery_days = 5, status = PyStr ''Delivered'',
       delivery_cost = 100, rating = 4, carrier = PyStr ''FastShip'', traffic_delay = 1,
       special_handling = PyStr ''None'', feedback_rating = 4\<rparr>,
      \<lparr>order_id = ''2'', order_value = 500, priority = PyStr ''Low'',
       promised_delivery_days = 3, actual_delivery_days = 3, status = PyStr ''Damaged'',
       delivery_cost = 150, rating = 0, carrier = PyStr ''GlobalTransit'', traffic_delay = 5,
       special_handling = PyStr ''Fragile'', feedback_rating = 0\<rparr>,
      \<lparr>order_id = ''3'', order_value = 200, priority = PyInt 0,
       promised_delivery_days = 0, actual_delivery_days = 0, status = PyInt 0,
       delivery_cost = 0, rating = 0, carrier = PyInt 0, traffic_delay = 0,
       special_handling = PyInt 0, feedback_rating = 0\<rparr>]"

text \<open>An order with a negative order value (a credit), delivered three days late.\<close>

definition ex_credit_orders :: "orders_row list" where
  "ex_credit_orders =
     [\<lparr>orders_order_id = ''9'', orders_order_value = Some (- 100), orders_priority = Some ''Low''\<rparr>]"

definition ex_credit_delivery :: "delivery_row list" where
  "ex_credit_delivery =
     [\<lparr>delivery_order_id = ''9'', delivery_promised_delivery_days = Some 2,
       delivery_actual_delivery_days = Some 5, delivery_status = Some ''Delivered'',
       delivery_delivery_cost = Some 100, delivery_rating = Some 4\<rparr>]"

section \<open>Properties\<close>

subsection \<open>The stages, row by row\<close>

lemmas row_defs = unified_row.defs deviation_row.defs leakage_row.defs tagged_row.defs order_record.defs

lemma median_series_nonempty: "xs \<noteq> [] \<Longrightarrow> \<exists>m. median_series xs = Finite m"
proof -
  assume "xs \<noteq> []"
  then have "median_series xs \<noteq> NonFinite"
    by (simp add: median_series_def Let_def)
  then show ?thesis by (cases "median_series xs") simp_all
qed


lemma loc_add_map:
  "loc_add sel rhs df =
     map (\<lambda>r. r\<lparr>value_leakage :=
            (if sel r then np_add (value_leakage r) (rhs r) else value_leakage r)\<rparr>) df"
  by (simp add: loc_add_def)

lemma loc_set_map:
  "loc_set sel v df = map (\<lambda>r. r\<lparr>root_cause := (if sel r then v else root_cause r)\<rparr>) df"
  by (simp add: loc_set_def)

lemma value_leakage_step_map:
  "value_leakage_step df =
     map (\<lambda>d. deviation_row.extend d (leakage_row.fields
       (let v = Finite 0;
            v = (if delay d then np_add v (np_mul (Finite 0.1) (Finite (order_value d))) else v);
            v = (if damage d then np_add v (np_mul (Finite 0.2) (Finite (order_value d))) else v);
            v = (if cost_overrun d
                 then np_add v (np_sub (Finite (delivery_cost d)) (median_series (map delivery_cost df)))
                 else v)
        in v))) df"
  by (simp add: value_leakage_step_def loc_add_map Let_def o_def row_defs)

lemma root_cause_tagging_map:
  "root_cause_tagging df =
     map (\<lambda>l. leakage_row.extend l (tagged_row.fields
       (if special_handling l \<noteq> PyStr ''None'' then ''Handling Complexity''
        else if isin (carrier l) [''GlobalTransit''] then ''Carrier Reliability''
        else if 2 < traffic_delay l then ''Traffic''
        else ''Normal''))) df"
  by (simp add: root_cause_tagging_def loc_set_map Let_def o_def row_defs)

lemma delivery_cost_deviation_logic:
  "map delivery_cost (deviation_logic df) = map delivery_cost df"
  by (simp add: deviation_logic_def Let_def row_defs o_def)

lemma delivery_cost_value_leakage_step:
  "map delivery_cost (value_leakage_step df) = map delivery_cost df"
  by (simp add: value_leakage_step_def loc_add_map Let_def row_defs o_def)

lemma delivery_cost_root_cause_tagging:
  "map delivery_cost (root_cause_tagging df) = map delivery_cost df"
  by (simp add: root_cause_tagging_def loc_set_map Let_def row_defs o_def)

lemma delivery_cost_risk_scoring:
  "map delivery_cost (risk_scoring df) = map delivery_cost df"
  by (simp add: risk_scoring_def Let_def row_defs o_def)

lemma delivery_cost_derive: "map delivery_cost (derive df) = map delivery_cost df"
  by (simp add: derive_def delivery_cost_deviation_logic delivery_cost_value_leakage_step
      delivery_cost_root_cause_tagging delivery_cost_risk_scoring)

lemma traffic_delay_deviation_logic:
  "map traffic_delay (deviation_logic df) = map traffic_delay df"
  by (simp add: deviation_logic_def Let_def row_defs o_def)

lemma traffic_delay_value_leakage_step:
  "map traffic_delay (value_leakage_step df) = map traffic_delay df"
  by (simp add: value_leakage_step_map Let_def row_defs o_def)

lemma traffic_delay_root_cause_tagging:
  "map traffic_delay (root_cause_tagging df) = map traffic_delay df"
  by (simp add: root_cause_tagging_map Let_def row_defs o_def)



lemma order_id_derive: "map order_id (derive df) = map order_id df"
  by (simp add: derive_def risk_scoring_def root_cause_tagging_map value_leakage_step_map
      deviation_logic_def Let_def row_defs o_def)

lemma length_derive: "length (derive df) = length df"
  using arg_cong [OF order_id_derive [of df], of length] by simp

lemma derive_Nil_iff: "derive df = [] \<longleftrightarrow> df = []"
  by (simp add: derive_def risk_scoring_def root_cause_tagging_map value_leakage_step_map
      deviation_logic_def Let_def)

lemma derive_rows:
  assumes "r \<in> set (derive df)"
  shows "\<exists>u\<in>set df.
     order_id r = order_id u \<and> order_value r = order_value u \<and> priority r = priority u \<and>
     promised_delivery_days r = promised_delivery_days u \<and>
     actual_delivery_days r = actual_delivery_days u \<and> status r = status u \<and>
     delivery_cost r = delivery_cost u \<and> rating r = rating u \<and> carrier r = carrier u \<and>
     traffic_delay r = traffic_delay u \<and> special_handling r = special_handling u \<and>
     feedback_rating r = feedback_rating u \<and>
     delay r = (promised_delivery_days u < actual_delivery_days u) \<and>
     damage r = isin (status u) [''Damaged'', ''Wrong Item''] \<and>
     cost_overrun r = np_gt (Finite (delivery_cost u)) (median_series (map delivery_cost df)) \<and>
     deviation r = (delay r \<or> damage r \<or> cost_overrun r) \<and>
     value_leakage r =
       (let v = Finite 0;
            v = (if delay r then np_add v (np_mul (Finite 0.1) (Finite (order_value u))) else v);
            v = (if damage r then np_add v (np_mul (Finite 0.2) (Finite (order_value u))) else v);
            v = (if cost_overrun r
                 then np_add v (np_sub (Finite (delivery_cost u)) (median_series (map delivery_cost df)))
                 else v)
        in v) \<and>
     root_cause r =
       (if special_handling u \<noteq> PyStr ''None'' then ''Handling Complexity''
        else if isin (carrier u) [''GlobalTransit''] then ''Carrier Reliability''
        else if 2 < traffic_delay u then ''Traffic''
        else ''Normal'') \<and>
     risk_score r =
       np_add
         (np_add
           (np_mul (Finite 0.4)
              (np_truediv (Finite (actual_delivery_days u))
                 (np_add (Finite (promised_delivery_days u)) (Finite 1))))
           (np_mul (Finite 0.3)
              (np_truediv (Finite (delivery_cost u))
                 (np_add (mean_series (map delivery_cost df)) (Finite 1)))))
         (np_mul (Finite 0.3)
            (np_truediv (Finite (traffic_delay u))
               (np_add (max_series (map traffic_delay df)) (Finite 1))))"
proof -
  let ?d = "deviation_logic df"
  let ?l = "value_leakage_step ?d"
  let ?t = "root_cause_tagging ?l"
  have dc: "map delivery_cost ?t = map delivery_cost df" "map delivery_cost ?d = map delivery_cost df"
    by (simp_all add: delivery_cost_deviation_logic delivery_cost_value_leakage_step
        delivery_cost_root_cause_tagging)
  have td: "map traffic_delay ?t = map traffic_delay df"
    by (simp add: traffic_delay_deviation_logic traffic_delay_value_leakage_step
        traffic_delay_root_cause_tagging)
  from assms obtain t where t: "t \<in> set ?t" and r: "r = tagged_row.extend t (order_record.fields
        (np_add
          (np_add
            (np_mul (Finite 0.4)
               (np_truediv (Finite (actual_delivery_days t))
                  (np_add (Finite (promised_delivery_days t)) (Finite 1))))
            (np_mul (Finite 0.3)
               (np_truediv (Finite (delivery_cost t)) (np_add (mean_series (map delivery_cost df)) (Finite 1)))))
          (np_mul (Finite 0.3)
             (np_truediv (Finite (traffic_delay t)) (np_add (max_series (map traffic_delay df)) (Finite 1))))))"
    unfolding derive_def risk_scoring_def Let_def dc td by auto
  from t obtain l where l: "l \<in> set ?l" and t': "t = leakage_row.extend l (tagged_row.fields
       (if special_handling l \<noteq> PyStr ''None'' then ''Handling Complexity''
        else if isin (carrier l) [''GlobalTransit''] then ''Carrier Reliability''
        else if 2 < traffic_delay l then ''Traffic''
        else ''Normal''))"
    unfolding root_cause_tagging_map by auto
  from l obtain d where d: "d \<in> set ?d" and l': "l = deviation_row.extend d (leakage_row.fields
       (let v = Finite 0;
            v = (if delay d then np_add v (np_mul (Finite 0.1) (Finite (order_value d))) else v);
            v = (if damage d then np_add v (np_mul (Finite 0.2) (Finite (order_value d))) else v);
            v = (if cost_overrun d
                 then np_add v (np_sub (Finite (delivery_cost d)) (median_series (map delivery_cost df)))
                 else v)
        in v))"
    unfolding value_leakage_step_map dc by auto
  from d obtain u where u: "u \<in> set df" and d': "d = unified_row.extend u
       (deviation_row.fields (promised_delivery_days u < actual_delivery_days u)
          (isin (status u) [''Damaged'', ''Wrong Item''])
          (np_gt (Finite (delivery_cost u)) (median_series (map delivery_cost df)))
          (promised_delivery_days u < actual_delivery_days u \<or>
           isin (status u) [''Damaged'', ''Wrong Item''] \<or>
           np_gt (Finite (delivery_cost u)) (median_series (map delivery_cost df))))"
    unfolding deviation_logic_def Let_def by auto
  have du: "order_id d = order_id u" "order_value d = order_value u" "priority d = priority u"
     "promised_delivery_days d = promised_delivery_days u"
     "actual_delivery_days d = actual_delivery_days u" "status d = status u"
     "delivery_cost d = delivery_cost u" "rating d = rating u" "carrier d = carrier u"
     "traffic_delay d = traffic_delay u" "special_handling d = special_handling u"
     "feedback_rating d = feedback_rating u"
     "delay d = (promised_delivery_days u < actual_delivery_days u)"
     "damage d = isin (status u) [''Damaged'', ''Wrong Item'']"
     "cost_overrun d = np_gt (Finite (delivery_cost u)) (median_series (map delivery_cost df))"
     "deviation d = (delay d \<or> damage d \<or> cost_overrun d)"
    by (simp_all add: d' row_defs)
  have ld: "order_id l = order_id d" "order_value l = order_value d" "priority l = priority d"
     "promised_delivery_days l = promised_delivery_days d"
     "actual_delivery_days l = actual_delivery_days d" "status l = status d"
     "delivery_cost l = delivery_cost d" "rating l = rating d" "carrier l = carrier d"
     "traffic_delay l = traffic_delay d" "special_handling l = special_handling d"
     "feedback_rating l = feedback_rating d"
     "delay l = delay d" "damage l = damage d" "cost_overrun l = cost_overrun d"
     "deviation l = deviation d"
    by (simp_all add: l' row_defs)
  have lv: "value_leakage l = (let v = Finite 0;
            v = (if delay d then np_add v (np_mul (Finite 0.1) (Finite (order_value d))) else v);
            v = (if damage d then np_add v (np_mul (Finite 0.2) (Finite (order_value d))) else v);
            v = (if cost_overrun d
                 then np_add v (np_sub (Finite (delivery_cost d)) (median_series (map delivery_cost df)))
                 else v)
        in v)"
    by (simp add: l' row_defs)
  have tl: "order_id t = order_id l" "order_value t = order_value l" "priority t = priority l"
     "promised_delivery_days t = promised_delivery_days l"
     "actual_delivery_days t = actual_delivery_days l" "status t = status l"
     "delivery_cost t = delivery_cost l" "rating t = rating l" "carrier t = carrier l"
     "traffic_delay t = traffic_delay l" "special_handling t = special_handling l"
     "feedback_rating t = feedback_rating l"
     "delay t = delay l" "damage t = damage l" "cost_overrun t = cost_overrun l"
     "deviation t = deviation l" "value_leakage t = value_leakage l"
    by (simp_all add: t' row_defs)
  have tr: "root_cause t = (if special_handling l \<noteq> PyStr ''None'' then ''Handling Complexity''
        else if isin (carrier l) [''GlobalTransit''] then ''Carrier Reliability''
        else if 2 < traffic_delay l then ''Traffic''
        else ''Normal'')"
    by (simp add: t' row_defs)
  have rt: "order_id r = order_id t" "order_value r = order_value t" "priority r = priority t"
     "promised_delivery_days r = promised_delivery_days t"
     "actual_delivery_days r = actual_delivery_days t" "status r = status t"
     "delivery_cost r = delivery_cost t" "rating r = rating t" "carrier r = carrier t"
     "traffic_delay r = traffic_delay t" "special_handling r = special_handling t"
     "feedback_rating r = feedback_rating t"
     "delay r = delay t" "damage r = damage t" "cost_overrun r = cost_overrun t"
     "deviation r = deviation t" "value_leakage r = value_leakage t"
     "root_cause r = root_cause t"
    by (simp_all add: r row_defs)
  have rr: "risk_score r = np_add
          (np_add
            (np_mul (Finite 0.4)
               (np_truediv (Finite (actual_delivery_days t))
                  (np_add (Finite (promised_delivery_days t)) (Finite 1))))
            (np_mul (Finite 0.3)
               (np_truediv (Finite (delivery_cost t)) (np_add (mean_series (map delivery_cost df)) (Finite 1)))))
          (np_mul (Finite 0.3)
             (np_truediv (Finite (traffic_delay t)) (np_add (max_series (map traffic_delay df)) (Finite 1))))"
    by (simp add: r row_defs)
  show ?thesis
    apply (rule bexI[OF _ u])
    apply (simp only: rt rr tl tr ld lv du)
    done
qed

lemma derive_row_source:
  assumes "r \<in> set (derive df)"
  shows "\<exists>u\<in>set df.
     order_id r = order_id u \<and> order_value r = order_value u \<and> priority r = priority u \<and>
     promised_delivery_days r = promised_delivery_days u \<and>
     actual_delivery_days r = actual_delivery_days u \<and> status r = status u \<and>
     delivery_cost r = delivery_cost u \<and> rating r = rating u \<and> carrier r = carrier u \<and>
     traffic_delay r = traffic_delay u \<and> special_handling r = special_handling u \<and>
     feedback_rating r = feedback_rating u"
  using derive_rows[OF assms] by (elim bexE conjE, intro bexI conjI) assumption+

lemma derive_row_flags:
  assumes "r \<in> set (derive df)"
  shows "delay r = (promised_delivery_days r < actual_delivery_days r)"
    and "damage r = isin (status r) [''Damaged'', ''Wrong Item'']"
    and "cost_overrun r = np_gt (Finite (delivery_cost r)) (median_series (map delivery_cost df))"
    and "deviation r = (delay r \<or> damage r \<or> cost_overrun r)"
  using derive_rows[OF assms] by (elim bexE conjE, simp)+

lemma derive_row_value_leakage:
  assumes "r \<in> set (derive df)"
  shows "value_leakage r =
       (let v = Finite 0;
            v = (if delay r then np_add v (np_mul (Finite 0.1) (Finite (order_value r))) else v);
            v = (if damage r then np_add v (np_mul (Finite 0.2) (Finite (order_value r))) else v);
            v = (if cost_overrun r
                 then np_add v (np_sub (Finite (delivery_cost r)) (median_series (map delivery_cost df)))
                 else v)
        in v)"
  using derive_rows[OF assms] by (elim bexE conjE, simp add: Let_def)

lemma derive_row_root_cause:
  assumes "r \<in> set (derive df)"
  shows "root_cause r =
       (if special_handling r \<noteq> PyStr ''None'' then ''Handling Complexity''
        else if isin (carrier r) [''GlobalTransit''] then ''Carrier Reliability''
        else if 2 < traffic_delay r then ''Traffic''
        else ''Normal'')"
  using derive_rows[OF assms] by (elim bexE conjE, simp)


lemma derive_median:
  assumes "r \<in> set (derive df)"
  shows "\<exists>m. median_series (map delivery_cost (derive df)) = Finite m \<and>
             median_series (map delivery_cost df) = Finite m"
proof -
  from assms have "derive df \<noteq> []" by auto
  then have "df \<noteq> []" by (simp add: derive_Nil_iff)
  then have "map delivery_cost df \<noteq> []" by simp
  from median_series_nonempty [OF this] show ?thesis
    by (simp add: delivery_cost_derive)
qed


subsection \<open>The example tables, evaluated\<close>

lemma ex_process_table:
  "process_table ex_orders ex_delivery ex_routes ex_cost ex_feedback = ex_unified"
  by (simp add: process_table_def merge_chain_def merge_left_def fillna_def fillna_num_def
      fillna_obj_def ex_orders_def ex_delivery_def ex_routes_def ex_cost_def ex_feedback_def
      ex_unified_def Let_def)

lemma ex_derive_fields:
  "map order_id (derive ex_unified) = [''1'', ''2'', ''3'']"
  "map special_handling (derive ex_unified) = [PyStr ''None'', PyStr ''Fragile'', PyInt 0]"
  "map order_value (derive ex_unified) = [1000, 500, 200]"
  "map promised_delivery_days (derive ex_unified) = [2, 3, 0]"
  "map actual_delivery_days (derive ex_unified) = [5, 3, 0]"
  "map status (derive ex_unified) = [PyStr ''Delivered'', PyStr ''Damaged'', PyInt 0]"
  "map delivery_cost (derive ex_unified) = [100, 150, 0]"
  "map traffic_delay (derive ex_unified) = [1, 5, 0]"
  "map delay (derive ex_unified) = [True, False, False]"
  "map damage (derive ex_unified) = [False, True, False]"
  "map cost_overrun (derive ex_unified) = [False, True, False]"
  "map deviation (derive ex_unified) = [True, True, False]"
  "map value_leakage (derive ex_unified) = [Finite 100, Finite 150, Finite 0]"
  "map root_cause (derive ex_unified) = [''Normal'', ''Handling Complexity'', ''Handling Complexity'']"
  "map risk_score (derive ex_unified) =
     [Finite (0.4 * (5 / 3) + 0.3 * (100 / (250 / 3 + 1)) + 0.3 * (1 / 6)),
      Finite (0.4 * (3 / 4) + 0.3 * (150 / (250 / 3 + 1)) + 0.3 * (5 / 6)),
      Finite 0]"
  by (simp_all add: derive_def risk_scoring_def root_cause_tagging_map value_leakage_step_map
      deviation_logic_def Let_def ex_unified_def row_defs isin_def median_series_def
      mean_series_def max_series_def)

lemma ex_derive_length: "length (derive ex_unified) = 3"
  using arg_cong [OF ex_derive_fields(1), of length] by simp

lemma nth_field: "i < length xs \<Longrightarrow> f (xs ! i) = map f xs ! i"
  by simp

subsection \<open>The merge chain\<close>

lemma merge_left_member:
  assumes "(l, ro) \<in> set (merge_left kl kr left right)"
  shows "l \<in> set left"
    and "ro = None \<Longrightarrow> kl l \<notin> kr ` set right"
    and "ro = Some r \<Longrightarrow> r \<in> set right \<and> kr r = kl l"
proof -
  from assms obtain l' where l': "l' \<in> set left"
    and mem: "(l, ro) \<in> set (case filter (\<lambda>r. kr r = kl l') right of
                         [] \<Rightarrow> [(l', None)]
                       | ms \<Rightarrow> map (\<lambda>r. (l', Some r)) ms)"
    by (auto simp: merge_left_def)
  show "l \<in> set left" using l' mem by (auto split: list.splits)
  show "ro = None \<Longrightarrow> kl l \<notin> kr ` set right"
    using mem by (auto split: list.splits simp: filter_empty_conv)
  show "ro = Some r \<Longrightarrow> r \<in> set right \<and> kr r = kl l"
  proof -
    assume ro: "ro = Some r"
    define ms where "ms = filter (\<lambda>r. kr r = kl l') right"
    from mem have "(l, ro) \<in> set (case ms of [] \<Rightarrow> [(l', None)]
                                    | x # xs \<Rightarrow> map (\<lambda>r. (l', Some r)) (x # xs))"
      unfolding ms_def .
    with ro have "l = l' \<and> r \<in> set ms" by (cases ms) auto
    then have "l = l' \<and> r \<in> set (filter (\<lambda>r. kr r = kl l') right)"
      by (simp only: ms_def)
    then show ?thesis by auto
  qed
qed

lemma merge_left_keeps:
  assumes "l \<in> set left"
  shows "\<exists>ro. (l, ro) \<in> set (merge_left kl kr left right)"
proof (cases "filter (\<lambda>r. kr r = kl l) right")
  case Nil
  with assms have "(l, None) \<in> set (merge_left kl kr left right)"
    by (force simp: merge_left_def)
  then show ?thesis by blast
next
  case (Cons x xs)
  with assms have "(l, Some x) \<in> set (merge_left kl kr left right)"
    by (force simp: merge_left_def)
  then show ?thesis by blast
qed

lemma filter_key_distinct:
  "distinct (map kr right) \<Longrightarrow>
     filter (\<lambda>r. kr r = k) right =
       (case find (\<lambda>r. kr r = k) right of None \<Rightarrow> [] | Some r \<Rightarrow> [r])"
proof (induction right)
  case Nil
  then show ?case by simp
next
  case (Cons x xs)
  show ?case
  proof (cases "kr x = k")
    case True
    with Cons.prems have "k \<notin> kr ` set xs" by auto
    then have "filter (\<lambda>r. kr r = k) xs = []" by (auto simp: filter_empty_conv)
    with True show ?thesis by simp
  next
    case False
    with Cons show ?thesis by simp
  qed
qed

lemma merge_left_distinct:
  assumes "distinct (map kr right)"
  shows "merge_left kl kr left right = map (\<lambda>l. (l, find (\<lambda>r. kr r = kl l) right)) left"
proof -
  have "\<And>l. (case filter (\<lambda>r. kr r = kl l) right of
                         [] \<Rightarrow> [(l, None)]
                       | ms \<Rightarrow> map (\<lambda>r. (l, Some r)) ms) = [(l, find (\<lambda>r. kr r = kl l) right)]"
    by (simp add: filter_key_distinct [OF assms] split: option.splits)
  then show ?thesis by (simp add: merge_left_def)
qed

lemma merge_chain_distinct:
  assumes "distinct (map delivery_order_id delivery)" "distinct (map routes_order_id routes)"
    "distinct (map cost_order_id cost)" "distinct (map feedback_order_id feedback)"
  shows "merge_chain orders delivery routes cost feedback =
     map (\<lambda>ord. ((((ord, find (\<lambda>r. delivery_order_id r = orders_order_id ord) delivery),
                        find (\<lambda>r. routes_order_id r = orders_order_id ord) routes),
                       find (\<lambda>r. cost_order_id r = orders_order_id ord) cost),
                      find (\<lambda>r. feedback_order_id r = orders_order_id ord) feedback)) orders"
  by (simp add: merge_chain_def Let_def merge_left_distinct assms o_def)

lemma process_table_distinct:
  assumes "distinct (map delivery_order_id delivery)" "distinct (map routes_order_id routes)"
    "distinct (map cost_order_id cost)" "distinct (map feedback_order_id feedback)"
  shows "process_table orders delivery routes cost feedback =
     map (\<lambda>ord. fillna
            ((((ord, find (\<lambda>r. delivery_order_id r = orders_order_id ord) delivery),
                     find (\<lambda>r. routes_order_id r = orders_order_id ord) routes),
                    find (\<lambda>r. cost_order_id r = orders_order_id ord) cost),
                   find (\<lambda>r. feedback_order_id r = orders_order_id ord) feedback)) orders"
  by (simp add: process_table_def merge_chain_distinct [OF assms] o_def)

lemma merge_chain_keeps:
  assumes "ord \<in> set orders"
  shows "\<exists>dlv rte cst fbk. ((((ord, dlv), rte), cst), fbk) \<in> set (merge_chain orders delivery routes cost feedback)"
proof -
  from merge_left_keeps [OF assms] obtain dlv where
    1: "(ord, dlv) \<in> set (merge_left orders_order_id delivery_order_id orders delivery)" by blast
  from merge_left_keeps [OF 1] obtain rte where
    2: "((ord, dlv), rte) \<in> set (merge_left (orders_order_id \<circ> fst) routes_order_id
          (merge_left orders_order_id delivery_order_id orders delivery) routes)" by blast
  from merge_left_keeps [OF 2] obtain cst where
    3: "(((ord, dlv), rte), cst) \<in> set (merge_left (orders_order_id \<circ> fst \<circ> fst) cost_order_id
          (merge_left (orders_order_id \<circ> fst) routes_order_id
          (merge_left orders_order_id delivery_order_id orders delivery) routes) cost)" by blast
  from merge_left_keeps [OF 3] obtain fbk where
    4: "((((ord, dlv), rte), cst), fbk) \<in> set (merge_left (orders_order_id \<circ> fst \<circ> fst \<circ> fst) feedback_order_id
          (merge_left (orders_order_id \<circ> fst \<circ> fst) cost_order_id
          (merge_left (orders_order_id \<circ> fst) routes_order_id
          (merge_left orders_order_id delivery_order_id orders delivery) routes) cost) feedback)" by blast
  then show ?thesis unfolding merge_chain_def Let_def by blast
qed

lemma order_id_fillna: "order_id (fillna ((((ord, dlv), rte), cst), fbk)) = orders_order_id ord"
  by (simp add: fillna_def)

lemma special_handling_fillna:
  "special_handling (fillna ((((ord, dlv), rte), cst), fbk)) =
     fillna_obj (Option.bind cst cost_special_handling)"
  by (simp add: fillna_def)

lemma process_table_keeps:
  assumes "ord \<in> set orders"
  shows "\<exists>u \<in> set (process_table orders delivery routes cost feedback).
           order_id u = orders_order_id ord"
proof -
  from merge_chain_keeps [OF assms] obtain dlv rte cst fbk where
    "((((ord, dlv), rte), cst), fbk) \<in> set (merge_chain orders delivery routes cost feedback)"
    by blast
  then have "fillna ((((ord, dlv), rte), cst), fbk)
      \<in> set (process_table orders delivery routes cost feedback)"
    by (simp add: process_table_def)
  then show ?thesis using order_id_fillna by blast
qed

lemma merge_chain_cost:
  assumes "((((ord, dlv), rte), cst), fbk) \<in> set (merge_chain orders delivery routes cost feedback)"
  shows "cst = None \<or> orders_order_id ord \<in> cost_order_id ` set cost"
proof -
  let ?df3 = "merge_left (orders_order_id \<circ> fst \<circ> fst) cost_order_id
          (merge_left (orders_order_id \<circ> fst) routes_order_id
          (merge_left orders_order_id delivery_order_id orders delivery) routes) cost"
  from assms have "((((ord, dlv), rte), cst), fbk)
      \<in> set (merge_left (orders_order_id \<circ> fst \<circ> fst \<circ> fst) feedback_order_id ?df3 feedback)"
    unfolding merge_chain_def Let_def .
  from merge_left_member(1) [OF this] have 3: "(((ord, dlv), rte), cst) \<in> set ?df3" .
  show ?thesis
  proof (cases cst)
    case None
    then show ?thesis by simp
  next
    case (Some c)
    from merge_left_member(3) [OF 3 Some]
    have "c \<in> set cost" "cost_order_id c = orders_order_id ord" by simp_all
    then show ?thesis by force
  qed
qed

lemma process_table_cost_unmatched:
  assumes "u \<in> set (process_table orders delivery routes cost feedback)"
    and "order_id u \<notin> cost_order_id ` set cost"
  shows "special_handling u = PyInt 0"
proof -
  from assms(1) obtain m where m: "m \<in> set (merge_chain orders delivery routes cost feedback)"
    and u: "u = fillna m" by (auto simp: process_table_def)
  obtain ord dlv rte cst fbk where m': "m = ((((ord, dlv), rte), cst), fbk)"
    by (metis surj_pair)
  from assms(2) have "orders_order_id ord \<notin> cost_order_id ` set cost"
    by (simp add: u m' order_id_fillna)
  with merge_chain_cost [of ord dlv rte cst fbk] m m' have "cst = None" by blast
  then show ?thesis by (simp add: u m' special_handling_fillna fillna_obj_def)
qed

subsection \<open>Join and fill\<close>

text \<open>
  C6. The process table is the chain of four left joins on \<open>order_id\<close>, orders with delivery,
  then routes, then cost, then feedback, followed by the fill. If none of the four joined
  tables has an order id twice, the process table, and the enriched table after it, has as
  many rows as the orders table; its i-th row is the i-th order, with the order's own cells
  and the cells of the one matching row of each joined table. A cell that is present is
  carried over as it is. Every missing cell is 0 there: the cells of a table without a
  matching row, and the empty cells of a matching row or of the order itself, numeric and
  string columns alike.
\<close>

theorem left_join_keeps_orders_and_fills_zero:
  assumes "distinct (map delivery_order_id delivery)" "distinct (map routes_order_id routes)"
    "distinct (map cost_order_id cost)" "distinct (map feedback_order_id feedback)"
  shows "length (process_table orders delivery routes cost feedback) = length orders \<and>
    length (pipeline orders delivery routes cost feedback) = length orders \<and>
    fillna_num None = 0 \<and> fillna_obj None = PyInt 0 \<and>
    (\<forall>v. fillna_num (Some v) = v) \<and> (\<forall>s. fillna_obj (Some s) = PyStr s) \<and>
    (\<forall>i < length orders.
       let u = process_table orders delivery routes cost feedback ! i; ord = orders ! i in
         order_id u = orders_order_id ord \<and>
         order_value u = fillna_num (orders_order_value ord) \<and>
         priority u = fillna_obj (orders_priority ord) \<and>
         (case find (\<lambda>r. delivery_order_id r = orders_order_id ord) delivery of
            None \<Rightarrow> promised_delivery_days u = 0 \<and> actual_delivery_days u = 0 \<and>
                    status u = PyInt 0 \<and> delivery_cost u = 0 \<and> rating u = 0
          | Some d \<Rightarrow>
              promised_delivery_days u = fillna_num (delivery_promised_delivery_days d) \<and>
              actual_delivery_days u = fillna_num (delivery_actual_delivery_days d) \<and>
              status u = fillna_obj (delivery_status d) \<and>
              delivery_cost u = fillna_num (delivery_delivery_cost d) \<and>
              rating u = fillna_num (delivery_rating d)) \<and>
         (case find (\<lambda>r. routes_order_id r = orders_order_id ord) routes of
            None \<Rightarrow> carrier u = PyInt 0 \<and> traffic_delay u = 0
          | Some r \<Rightarrow> carrier u = fillna_obj (routes_carrier r) \<and>
                      traffic_delay u = fillna_num (routes_traffic_delay r)) \<and>
         (case find (\<lambda>r. cost_order_id r = orders_order_id ord) cost of
            None \<Rightarrow> special_handling u = PyInt 0
          | Some c \<Rightarrow> special_handling u = fillna_obj (cost_special_handling c)) \<and>
         (case find (\<lambda>r. feedback_order_id r = orders_order_id ord) feedback of
            None \<Rightarrow> feedback_rating u = 0
          | Some f \<Rightarrow> feedback_rating u = fillna_num (feedback_feedback_rating f)))"
proof -
  note pt = process_table_distinct [OF assms, of orders]
  have 1: "length (process_table orders delivery routes cost feedback) = length orders"
    by (simp add: pt)
  then have 2: "length (pipeline orders delivery routes cost feedback) = length orders"
    by (simp add: pipeline_def length_derive)
  have 3: "fillna_num None = 0" "fillna_obj None = PyInt 0"
    by (simp_all add: fillna_num_def fillna_obj_def)
  have 5: "\<forall>v. fillna_num (Some v) = v" "\<forall>s. fillna_obj (Some s) = PyStr s"
    by (simp_all add: fillna_num_def fillna_obj_def)
  have 4: "\<forall>i < length orders.
       let u = process_table orders delivery routes cost feedback ! i; ord = orders ! i in
         order_id u = orders_order_id ord \<and>
         order_value u = fillna_num (orders_order_value ord) \<and>
         priority u = fillna_obj (orders_priority ord) \<and>
         (case find (\<lambda>r. delivery_order_id r = orders_order_id ord) delivery of
            None \<Rightarrow> promised_delivery_days u = 0 \<and> actual_delivery_days u = 0 \<and>
                    status u = PyInt 0 \<and> delivery_cost u = 0 \<and> rating u = 0
          | Some d \<Rightarrow>
              promised_delivery_days u = fillna_num (delivery_promised_delivery_days d) \<and>
              actual_delivery_days u = fillna_num (delivery_actual_delivery_days d) \<and>
              status u = fillna_obj (delivery_status d) \<and>
              delivery_cost u = fillna_num (delivery_delivery_cost d) \<and>
              rating u = fillna_num (delivery_rating d)) \<and>
         (case find (\<lambda>r. routes_order_id r = orders_order_id ord) routes of
            None \<Rightarrow> carrier u = PyInt 0 \<and> traffic_delay u = 0
          | Some r \<Rightarrow> carrier u = fillna_obj (routes_carrier r) \<and>
                      traffic_delay u = fillna_num (routes_traffic_delay r)) \<and>
         (case find (\<lambda>r. cost_order_id r = orders_order_id ord) cost of
            None \<Rightarrow> special_handling u = PyInt 0
          | Some c \<Rightarrow> special_handling u = fillna_obj (cost_special_handling c)) \<and>
         (case find (\<lambda>r. feedback_order_id r = orders_order_id ord) feedback of
            None \<Rightarrow> feedback_rating u = 0
          | Some f \<Rightarrow> feedback_rating u = fillna_num (feedback_feedback_rating f))"
    by (simp add: pt Let_def fillna_def 3 split: option.splits)
  from 1 2 3 5 4 show ?thesis by blast
qed

theorem left_join_keeps_orders_and_fills_zero_witness:
  "distinct (map delivery_order_id ex_delivery) \<and> distinct (map routes_order_id ex_routes) \<and>
   distinct (map cost_order_id ex_cost) \<and> distinct (map feedback_order_id ex_feedback) \<and>
   length (process_table ex_orders ex_delivery ex_routes ex_cost ex_feedback) = length ex_orders \<and>
   length (pipeline ex_orders ex_delivery ex_routes ex_cost ex_feedback) = length ex_orders \<and>
   length ex_orders = 3 \<and>
   order_value (process_table ex_orders ex_delivery ex_routes ex_cost ex_feedback ! 1) = 500 \<and>
   status (process_table ex_orders ex_delivery ex_routes ex_cost ex_feedback ! 1) = PyStr ''Damaged'' \<and>
   delivery_cost (process_table ex_orders ex_delivery ex_routes ex_cost ex_feedback ! 1) = 150 \<and>
   rating (process_table ex_orders ex_delivery ex_routes ex_cost ex_feedback ! 1) = 0 \<and>
   feedback_rating (process_table ex_orders ex_delivery ex_routes ex_cost ex_feedback ! 1) = 0 \<and>
   special_handling (process_table ex_orders ex_delivery ex_routes ex_cost ex_feedback ! 1) =
     PyStr ''Fragile''"
proof -
  have d: "distinct (map delivery_order_id ex_delivery)" "distinct (map routes_order_id ex_routes)"
    "distinct (map cost_order_id ex_cost)" "distinct (map feedback_order_id ex_feedback)"
    by (simp_all add: ex_delivery_def ex_routes_def ex_cost_def ex_feedback_def)
  have l: "length ex_orders = 3" by (simp add: ex_orders_def)
  note inst = left_join_keeps_orders_and_fills_zero [OF d, of ex_orders]
  note pins = inst [THEN conjunct2, THEN conjunct2, THEN conjunct1]
    inst [THEN conjunct2, THEN conjunct2, THEN conjunct2, THEN conjunct1]
    inst [THEN conjunct2, THEN conjunct2, THEN conjunct2, THEN conjunct2, THEN conjunct1,
      rule_format]
    inst [THEN conjunct2, THEN conjunct2, THEN conjunct2, THEN conjunct2, THEN conjunct2,
      THEN conjunct1, rule_format]
  have "1 < length ex_orders" by (simp add: l)
  from inst [THEN conjunct2, THEN conjunct2, THEN conjunct2, THEN conjunct2, THEN conjunct2,
      THEN conjunct2, rule_format, OF this]
  have cells:
    "order_value (process_table ex_orders ex_delivery ex_routes ex_cost ex_feedback ! 1) = 500"
    "status (process_table ex_orders ex_delivery ex_routes ex_cost ex_feedback ! 1) = PyStr ''Damaged''"
    "delivery_cost (process_table ex_orders ex_delivery ex_routes ex_cost ex_feedback ! 1) = 150"
    "rating (process_table ex_orders ex_delivery ex_routes ex_cost ex_feedback ! 1) = 0"
    "feedback_rating (process_table ex_orders ex_delivery ex_routes ex_cost ex_feedback ! 1) = 0"
    "special_handling (process_table ex_orders ex_delivery ex_routes ex_cost ex_feedback ! 1) =
       PyStr ''Fragile''"
    by (simp_all add: Let_def pins ex_orders_def ex_delivery_def ex_routes_def ex_cost_def
        ex_feedback_def)
  from inst d l cells show ?thesis by blast
qed

subsection \<open>Orders without a cost row\<close>

text \<open>
  C10. Every order has at least one row in the enriched table, and a row whose order id has
  no row in the cost table has the integer 0 for \<open>special_handling\<close>, put there by the
  fill. The integer 0 is not the string \<open>None\<close>, so the third tagging rule matches and the
  root cause of the row is \<open>Handling Complexity\<close>, whatever its traffic delay and carrier.
\<close>

theorem unmatched_cost_is_handling_complexity:
  "(\<forall>r \<in> set (pipeline orders delivery routes cost feedback).
      order_id r \<notin> cost_order_id ` set cost \<longrightarrow>
      special_handling r = PyInt 0 \<and> special_handling r \<noteq> PyStr ''None'' \<and>
      root_cause r = ''Handling Complexity'') \<and>
   (\<forall>ord \<in> set orders.
      \<exists>r \<in> set (pipeline orders delivery routes cost feedback). order_id r = orders_order_id ord)"
proof (intro conjI ballI impI)
  fix r assume r: "r \<in> set (pipeline orders delivery routes cost feedback)"
    and un: "order_id r \<notin> cost_order_id ` set cost"
  let ?df = "process_table orders delivery routes cost feedback"
  from r have r': "r \<in> set (derive ?df)" by (simp add: pipeline_def)
  from derive_row_source [OF r'] obtain u where u: "u \<in> set ?df"
    and id: "order_id r = order_id u" and sh: "special_handling r = special_handling u"
    by blast
  from un id have "order_id u \<notin> cost_order_id ` set cost" by simp
  from process_table_cost_unmatched [OF u this] sh
  show 1: "special_handling r = PyInt 0" by simp
  then show 2: "special_handling r \<noteq> PyStr ''None''" by simp
  then show "root_cause r = ''Handling Complexity''"
    by (simp add: derive_row_root_cause [OF r'])
next
  fix ord assume "ord \<in> set orders"
  let ?df = "process_table orders delivery routes cost feedback"
  from process_table_keeps [OF \<open>ord \<in> set orders\<close>] obtain u where
    u: "u \<in> set ?df" and id: "order_id u = orders_order_id ord" by blast
  from u id have "orders_order_id ord \<in> set (map order_id ?df)" by force
  then have "orders_order_id ord \<in> set (map order_id (derive ?df))"
    by (simp only: order_id_derive)
  then show "\<exists>r \<in> set (pipeline orders delivery routes cost feedback). order_id r = orders_order_id ord"
    by (auto simp: pipeline_def)
qed

theorem unmatched_cost_is_handling_complexity_witness:
  "pipeline ex_orders ex_delivery ex_routes ex_cost ex_feedback ! 2
     \<in> set (pipeline ex_orders ex_delivery ex_routes ex_cost ex_feedback) \<and>
   order_id (pipeline ex_orders ex_delivery ex_routes ex_cost ex_feedback ! 2)
     \<notin> cost_order_id ` set ex_cost \<and>
   special_handling (pipeline ex_orders ex_delivery ex_routes ex_cost ex_feedback ! 2) = PyInt 0 \<and>
   root_cause (pipeline ex_orders ex_delivery ex_routes ex_cost ex_feedback ! 2) =
     ''Handling Complexity''"
proof -
  have p: "pipeline ex_orders ex_delivery ex_routes ex_cost ex_feedback = derive ex_unified"
    by (simp add: pipeline_def ex_process_table)
  have mem: "pipeline ex_orders ex_delivery ex_routes ex_cost ex_feedback ! 2
     \<in> set (pipeline ex_orders ex_delivery ex_routes ex_cost ex_feedback)"
    unfolding p by (rule nth_mem) (simp add: ex_derive_length)
  have un: "order_id (pipeline ex_orders ex_delivery ex_routes ex_cost ex_feedback ! 2)
     \<notin> cost_order_id ` set ex_cost"
    unfolding p by (simp add: nth_field ex_derive_length ex_derive_fields ex_cost_def)
  from conjunct1 [OF unmatched_cost_is_handling_complexity, THEN bspec, OF mem] un mem
  show ?thesis by blast
qed

subsection \<open>Deviation flags\<close>



subsection \<open>Value leakage\<close>



subsection \<open>Sign of the value leakage\<close>

text \<open>
  C4, as the script has it. The excess of the delivery cost over the median is added only to
  rows whose cost is strictly above the median, so that contribution is positive wherever it
  is added; and in every row whose order value is not negative the value leakage is a finite
  number that is not negative. The script never checks the sign of an order value, and a row
  with a negative one that is delayed or damaged has a negative leakage: an order of value
  -100 delivered late leaks -10.
\<close>

theorem value_leakage_nonneg:
  "\<forall>r \<in> set (derive df).
     \<exists>m. median_series (map delivery_cost (derive df)) = Finite m \<and>
         (cost_overrun r \<longrightarrow> 0 < delivery_cost r - m) \<and>
         (0 \<le> order_value r \<longrightarrow> (\<exists>v. value_leakage r = Finite v \<and> 0 \<le> v))"
proof
  fix r assume r: "r \<in> set (derive df)"
  from derive_median [OF r] obtain m where
    m: "median_series (map delivery_cost (derive df)) = Finite m"
    and m': "median_series (map delivery_cost df) = Finite m" by blast
  have co: "cost_overrun r = (m < delivery_cost r)"
    by (simp add: derive_row_flags(3) [OF r] m')
  have vl: "value_leakage r =
           Finite ((if delay r then 0.1 * order_value r else 0) +
                   (if damage r then 0.2 * order_value r else 0) +
                   (if cost_overrun r then delivery_cost r - m else 0))"
    unfolding derive_row_value_leakage [OF r] m' by (simp add: Let_def)
  have nn: "0 \<le> order_value r \<Longrightarrow>
     0 \<le> (if delay r then 0.1 * order_value r else 0) +
          (if damage r then 0.2 * order_value r else 0) +
          (if cost_overrun r then delivery_cost r - m else 0)"
    using co by (intro add_nonneg_nonneg) simp_all
  from m co vl nn
  show "\<exists>m. median_series (map delivery_cost (derive df)) = Finite m \<and>
         (cost_overrun r \<longrightarrow> 0 < delivery_cost r - m) \<and>
         (0 \<le> order_value r \<longrightarrow> (\<exists>v. value_leakage r = Finite v \<and> 0 \<le> v))"
    by auto
qed

theorem value_leakage_nonneg_witness:
  "derive ex_unified ! 1 \<in> set (derive ex_unified) \<and>
   cost_overrun (derive ex_unified ! 1) \<and>
   0 \<le> order_value (derive ex_unified ! 1) \<and>
   (\<exists>m. median_series (map delivery_cost (derive ex_unified)) = Finite m \<and>
        0 < delivery_cost (derive ex_unified ! 1) - m) \<and>
   (\<exists>v. value_leakage (derive ex_unified ! 1) = Finite v \<and> 0 \<le> v)"
proof -
  have mem: "derive ex_unified ! 1 \<in> set (derive ex_unified)"
    by (rule nth_mem) (simp add: ex_derive_length)
  have co: "cost_overrun (derive ex_unified ! 1)"
    and ov: "0 \<le> order_value (derive ex_unified ! 1)"
    by (simp_all add: nth_field ex_derive_length ex_derive_fields)
  from mem co ov bspec [OF value_leakage_nonneg mem] show ?thesis by blast
qed

theorem value_leakage_negative_counterexample:
  "map value_leakage (pipeline ex_credit_orders ex_credit_delivery [] [] []) = [Finite (- 10)]"
  by (simp add: pipeline_def process_table_def merge_chain_def merge_left_def fillna_def
      fillna_num_def fillna_obj_def ex_credit_orders_def ex_credit_delivery_def
      derive_def risk_scoring_def root_cause_tagging_map value_leakage_step_map
      deviation_logic_def Let_def row_defs isin_def median_series_def
      mean_series_def max_series_def)

subsection \<open>Root cause\<close>



subsection \<open>Risk score\<close>



subsection \<open>Simulator\<close>

lemma fold_np_add_Finite:
  "fold (\<lambda>x acc. np_add acc x) (map Finite vs) (Finite a) = Finite (a + sum_list vs)"
  by (induction vs arbitrary: a) (simp_all add: add.assoc)

lemma sum_series_Finite: "sum_series (map Finite vs) = Finite (sum_list vs)"
  by (simp add: sum_series_def fold_np_add_Finite)

lemma all_Finite_map:
  "(\<forall>x \<in> set xs. \<exists>v. f x = Finite v) \<Longrightarrow> \<exists>vs. map f xs = map Finite vs"
proof (induction xs)
  case Nil
  then show ?case by simp
next
  case (Cons x xs)
  then obtain v vs where "f x = Finite v" "map f xs = map Finite vs" by auto
  then have "map f (x # xs) = map Finite (v # vs)" by simp
  then show ?case by blast
qed

lemma derive_value_leakage_Finite: "\<exists>vs. map value_leakage (derive df) = map Finite vs"
proof (rule all_Finite_map, rule ballI)
  fix r assume r: "r \<in> set (derive df)"
  from derive_median [OF r] obtain m where
    m': "median_series (map delivery_cost df) = Finite m" by blast
  have "value_leakage r =
           Finite ((if delay r then 0.1 * order_value r else 0) +
                   (if damage r then 0.2 * order_value r else 0) +
                   (if cost_overrun r then delivery_cost r - m else 0))"
    unfolding derive_row_value_leakage [OF r] m' by (simp add: Let_def)
  then show "\<exists>v. value_leakage r = Finite v" by blast
qed

text \<open>
  C8. The base leakage of the simulator is the sum of the value leakage over all rows of the
  enriched table, each a finite number. For every three slider values the simulated saving
  is the base leakage times
  \<open>delay_reduction/100 * 0.4 + damage_reduction/100 * 0.4 + route_saving/100 * 0.2\<close> and
  the new baseline is the base leakage less that saving. A base leakage of 1000 with the
  sliders at 20, 10 and 15 gives a saving of 150 and a baseline of 850.
\<close>

theorem simulator_saving_and_baseline:
  "(\<exists>vs. map value_leakage (derive df) = map Finite vs \<and>
         base_leakage (derive df) = Finite (sum_list vs)) \<and>
   simulated_saving (Finite b) delay_reduction damage_reduction route_saving =
     Finite (b * (real_of_int delay_reduction / 100 * 0.4 +
                  real_of_int damage_reduction / 100 * 0.4 +
                  real_of_int route_saving / 100 * 0.2)) \<and>
   new_baseline (Finite b) delay_reduction damage_reduction route_saving =
     Finite (b - b * (real_of_int delay_reduction / 100 * 0.4 +
                      real_of_int damage_reduction / 100 * 0.4 +
                      real_of_int route_saving / 100 * 0.2)) \<and>
   simulated_saving (Finite 1000) 20 10 15 = Finite 150 \<and>
   new_baseline (Finite 1000) 20 10 15 = Finite 850"
proof -
  from derive_value_leakage_Finite [of df] obtain vs where
    vs: "map value_leakage (derive df) = map Finite vs" by blast
  then have "base_leakage (derive df) = Finite (sum_list vs)"
    by (simp add: base_leakage_def sum_series_Finite)
  with vs have 1: "\<exists>vs. map value_leakage (derive df) = map Finite vs \<and>
         base_leakage (derive df) = Finite (sum_list vs)" by blast
  have 2: "simulated_saving (Finite 1000) 20 10 15 = Finite 150"
    "new_baseline (Finite 1000) 20 10 15 = Finite 850"
    by (simp_all add: simulated_saving_def new_baseline_def)
  from 1 2 show ?thesis by (simp add: simulated_saving_def new_baseline_def)
qed

theorem simulator_saving_and_baseline_witness:
  "base_leakage (derive ex_unified) = Finite 250 \<and>
   simulated_saving (Finite 250) 20 10 15 = Finite (75 / 2) \<and>
   new_baseline (Finite 250) 20 10 15 = Finite (425 / 2)"
proof -
  from simulator_saving_and_baseline [of ex_unified 250 20 10 15]
  obtain vs where vs: "map value_leakage (derive ex_unified) = map Finite vs"
    and b: "base_leakage (derive ex_unified) = Finite (sum_list vs)"
    and s: "simulated_saving (Finite 250) 20 10 15 =
      Finite (250 * (real_of_int 20 / 100 * 0.4 + real_of_int 10 / 100 * 0.4 + real_of_int 15 / 100 * 0.2))"
    and n: "new_baseline (Finite 250) 20 10 15 =
      Finite (250 - 250 * (real_of_int 20 / 100 * 0.4 + real_of_int 10 / 100 * 0.4 + real_of_int 15 / 100 * 0.2))"
    by blast
  from vs have "vs = [100, 150, 0]"
    by (simp add: ex_derive_fields map_eq_Cons_conv) auto
  with b s n show ?thesis by simp
qed

subsection \<open>ROI horizon\<close>

text \<open>
  C1, as the script has it. The ROI horizon is \<open>100000 / simulated_saving\<close>, divided without
  any guard. Where the saving is not 0 the horizon is that quotient and nothing is reported.
  Where the saving is 0, as it is with all three sliders at 0, the division is carried out
  all the same: numpy reports the division by zero as a warning and returns an infinity, and
  no exception is raised.
\<close>

theorem roi_horizon_unguarded:
  "roi_horizon (Finite s) =
     (if s = 0 then (NonFinite, [DivideByZero]) else (Finite (100000 / s), []))"
  by (simp add: roi_horizon_def)

theorem roi_horizon_unguarded_witness:
  "roi_horizon (simulated_saving (Finite 1000) 20 10 15) = (Finite (2000 / 3), []) \<and>
   roi_horizon (simulated_saving (Finite 0) 20 10 15) = (NonFinite, [DivideByZero])"
  using roi_horizon_unguarded [of 150] roi_horizon_unguarded [of 0]
  by (simp add: simulated_saving_def)

theorem roi_horizon_division_by_zero_counterexample:
  "snd (roi_horizon (simulated_saving (Finite 1000) 0 0 0)) = [DivideByZero]"
  by (simp add: roi_horizon_def simulated_saving_def)

subsection \<open>The empty table\<close>

text \<open>
  C9, as the script has it. With no orders the process table and the enriched table are
  empty whatever the other four tables hold, and nothing fails: the median and the mean of
  \<open>delivery_cost\<close> and the maximum of \<open>traffic_delay\<close> are nan, the base leakage of the
  simulator is 0, and the two means of the dashboard are nan.
\<close>

theorem empty_table_no_failure:
  "process_table [] delivery routes cost feedback = [] \<and>
   pipeline [] delivery routes cost feedback = [] \<and>
   median_series (map delivery_cost (pipeline [] delivery routes cost feedback)) = NonFinite \<and>
   mean_series (map delivery_cost (pipeline [] delivery routes cost feedback)) = NonFinite \<and>
   max_series (map traffic_delay (pipeline [] delivery routes cost feedback)) = NonFinite \<and>
   base_leakage (pipeline [] delivery routes cost feedback) = Finite 0 \<and>
   perfect_order_rate (pipeline [] delivery routes cost feedback) = NonFinite \<and>
   avg_customer_rating (pipeline [] delivery routes cost feedback) = NonFinite"
proof -
  have 1: "process_table [] delivery routes cost feedback = []"
    by (simp add: process_table_def merge_chain_def merge_left_def)
  then have 2: "pipeline [] delivery routes cost feedback = []"
    by (simp add: pipeline_def derive_Nil_iff)
  show ?thesis unfolding 2 using 1
    by (simp add: median_series_def mean_series_def max_series_def base_leakage_def
        sum_series_def perfect_order_rate_def avg_customer_rating_def)
qed

theorem empty_table_no_failure_witness:
  "pipeline [] ex_delivery ex_routes ex_cost ex_feedback = [] \<and>
   perfect_order_rate (pipeline [] ex_delivery ex_routes ex_cost ex_feedback) = NonFinite"
  using empty_table_no_failure [of ex_delivery ex_routes ex_cost ex_feedback] by blast

theorem empty_table_nan_counterexample:
  "pipeline [] [] [] [] [] = [] \<and>
   median_series (map delivery_cost (pipeline [] [] [] [] [])) = NonFinite \<and>
   mean_series (map delivery_cost (pipeline [] [] [] [] [])) = NonFinite \<and>
   max_series (map traffic_delay (pipeline [] [] [] [] [])) = NonFinite \<and>
   avg_customer_rating (pipeline [] [] [] [] []) = NonFinite"
proof -
  have "pipeline [] [] [] [] [] = []"
    by (simp add: pipeline_def process_table_def merge_chain_def merge_left_def derive_Nil_iff)
  then show ?thesis
    by (simp add: median_series_def mean_series_def max_series_def avg_customer_rating_def)
qed

end
